theory Spec2Isabelle
  imports Main "HOL-Library.AList"
begin

section \<open>Specification model (validators/common/spec\_loader.py)\<close>

text \<open>
  The three enumerations of the loader. \<open>Curvature\<close> and \<open>Sign\<close> both have a member
  \<open>UNKNOWN\<close>, as in the source; they are told apart by their qualified names.
\<close>

datatype Curvature = CONSTANT | AFFINE | CONVEX | CONCAVE | UNKNOWN

datatype Sign = NONNEGATIVE | NONPOSITIVE | UNKNOWN | ZERO

datatype Monotonicity = INCREASING | DECREASING | NONE

text \<open>The \<open>.value\<close> of an enumeration member, and the lookup \<open>Curvature(raw)\<close> by value.\<close>

fun Curvature_value :: "Curvature \<Rightarrow> string" where
  "Curvature_value CONSTANT = ''constant''"
| "Curvature_value AFFINE = ''affine''"
| "Curvature_value CONVEX = ''convex''"
| "Curvature_value CONCAVE = ''concave''"
| "Curvature_value Curvature.UNKNOWN = ''unknown''"

fun Sign_value :: "Sign \<Rightarrow> string" where
  "Sign_value NONNEGATIVE = ''nonnegative''"
| "Sign_value NONPOSITIVE = ''nonpositive''"
| "Sign_value Sign.UNKNOWN = ''unknown''"
| "Sign_value ZERO = ''zero''"

text \<open>
  What \<open>yaml.safe_load\<close> returns: null, booleans, integers, strings, lists and mappings.
  A mapping is kept as an association list in document order, its keys distinct, as the
  keys of a Python dict are; \<open>map_of\<close> is its \<open>get\<close>. Keys are strings. Other scalars
  (floats, dates) behave in every function below as \<open>YInt\<close> does: they are neither a
  string nor a mapping.
\<close>

datatype yaml =
  YNull | YBool bool | YInt int | YStr string | YList "yaml list" | YMap "(string \<times> yaml) list"

text \<open>The exceptions that loading can raise.\<close>

datatype error = AttributeError | ValueError | OSError | YAMLError

text \<open>\<open>d.get(key, default)\<close> on a dict.\<close>

definition dict_get :: "(string \<times> yaml) list \<Rightarrow> string \<Rightarrow> yaml \<Rightarrow> yaml" where
  "dict_get d k dflt = (case map_of d k of None \<Rightarrow> dflt | Some v \<Rightarrow> v)"

text \<open>
  \<open>Curvature(raw)\<close>: the member whose value is \<open>raw\<close>, \<open>ValueError\<close> when there is none
  (in particular for every \<open>raw\<close> that is not a string).
\<close>

fun Curvature_of :: "yaml \<Rightarrow> error + Curvature" where
  "Curvature_of (YStr raw) =
     (if raw = ''constant'' then Inr CONSTANT
      else if raw = ''affine'' then Inr AFFINE
      else if raw = ''convex'' then Inr CONVEX
      else if raw = ''concave'' then Inr CONCAVE
      else if raw = ''unknown'' then Inr Curvature.UNKNOWN
      else Inl ValueError)"
| "Curvature_of _ = Inl ValueError"

text \<open>
  The dataclass \<open>AtomSpec\<close>. The loader stores \<open>description\<close>, \<open>arity\<close>, \<open>dcp_requires\<close>
  and \<open>parameters\<close> as the document gives them, unchecked, so they are \<open>yaml\<close> values;
  Python's \<open>None\<close> is \<open>YNull\<close>.
\<close>

record AtomSpec =
  name :: string
  description :: yaml
  curvature :: Curvature
  sign :: Sign
  arity :: yaml
  dcp_requires :: yaml
  monotonicity :: "Monotonicity option"
  parameters :: yaml

definition requires_affine_arg :: "AtomSpec \<Rightarrow> bool" where
  "requires_affine_arg spec = (dcp_requires spec = YStr ''affine_arg'')"

definition requires_constant_arg :: "AtomSpec \<Rightarrow> bool" where
  "requires_constant_arg spec = (dcp_requires spec = YStr ''constant_arg'')"

text \<open>The dataclass \<open>AtomSpecs\<close>: three dicts from atom name to \<open>AtomSpec\<close>.\<close>

record AtomSpecs =
  affine_atoms :: "(string \<times> AtomSpec) list"
  convex_atoms :: "(string \<times> AtomSpec) list"
  concave_atoms :: "(string \<times> AtomSpec) list"

text \<open>
  \<open>AtomSpecs.get\<close>: \<open>a.get(name) or b.get(name) or c.get(name)\<close>. An \<open>AtomSpec\<close> is always
  truthy, so \<open>or\<close> moves on exactly when the lookup gave \<open>None\<close>.
\<close>

definition get :: "AtomSpecs \<Rightarrow> string \<Rightarrow> AtomSpec option" where
  "get specs nm =
     (case map_of (affine_atoms specs) nm of
        Some a \<Rightarrow> Some a
      | None \<Rightarrow>
          (case map_of (convex_atoms specs) nm of
             Some a \<Rightarrow> Some a
           | None \<Rightarrow> map_of (concave_atoms specs) nm))"



text \<open>\<open>_parse_sign\<close> (an Isabelle name cannot start with an underscore).\<close>

fun parse_sign :: "yaml \<Rightarrow> Sign" where
  "parse_sign (YStr raw) =
     (if raw = ''nonnegative'' then NONNEGATIVE
      else if raw = ''nonpositive'' then NONPOSITIVE
      else if raw = ''unknown'' then Sign.UNKNOWN
      else if raw \<in> set [''from_value'', ''from_attributes'', ''preserve''] then Sign.UNKNOWN
      else Sign.UNKNOWN)"
| "parse_sign _ = Sign.UNKNOWN"

text \<open>\<open>_parse_monotonicity\<close>; the argument \<open>None\<close> is \<open>YNull\<close>.\<close>

fun parse_monotonicity :: "yaml \<Rightarrow> Monotonicity option" where
  "parse_monotonicity YNull = None"
| "parse_monotonicity raw =
     (if raw = YStr ''increasing'' then Some INCREASING
      else if raw = YStr ''decreasing'' then Some DECREASING
      else if raw = YStr ''none'' then Some NONE
      else None)"

text \<open>
  \<open>_parse_atom\<close>. \<open>data.get\<close> raises \<open>AttributeError\<close> when \<open>data\<close> is not a mapping, and
  \<open>Curvature(curvature_raw)\<close> raises \<open>ValueError\<close> on a token that is no curvature value;
  nothing else in the function raises.
\<close>

fun parse_atom :: "string \<Rightarrow> yaml \<Rightarrow> Curvature \<Rightarrow> error + AtomSpec" where
  "parse_atom nm (YMap data) default_curvature =
     (let curvature_raw = dict_get data ''curvature'' (YStr (Curvature_value default_curvature));
          curvature_res =
            (case curvature_raw of
               YMap _ \<Rightarrow> Inr default_curvature
             | _ \<Rightarrow>
                 if curvature_raw \<noteq> YStr ''preserve'' then Curvature_of curvature_raw
                 else Inr default_curvature)
      in case curvature_res of
           Inl e \<Rightarrow> Inl e
         | Inr curv \<Rightarrow>
             Inr \<lparr> name = nm,
                   description = dict_get data ''description'' (YStr []),
                   curvature = curv,
                   sign = parse_sign (dict_get data ''sign'' (YStr ''unknown'')),
                   arity = dict_get data ''arity'' (YStr ''unary''),
                   dcp_requires = dict_get data ''dcp_requires'' YNull,
                   monotonicity = parse_monotonicity (dict_get data ''monotonicity'' YNull),
                   parameters = dict_get data ''parameters'' (YList []) \<rparr>)"
| "parse_atom nm _ default_curvature = Inl AttributeError"

text \<open>
  \<open>load_specs\<close>. Opening or parsing the file may raise; otherwise \<open>data\<close> is the parsed
  document. \<open>.get\<close> and \<open>.items()\<close> raise \<open>AttributeError\<close> on anything that is not a mapping.
  Each of the three loops stores \<open>_parse_atom\<close>'s result under the atom's name and stops
  at the first exception.
\<close>

datatype source = Unreadable | Malformed | Document yaml

fun items :: "yaml \<Rightarrow> error + (string \<times> yaml) list" where
  "items (YMap d) = Inr d"
| "items _ = Inl AttributeError"

fun parse_group ::
  "Curvature \<Rightarrow> (string \<times> AtomSpec) list \<Rightarrow> (string \<times> yaml) list \<Rightarrow>
   error + (string \<times> AtomSpec) list" where
  "parse_group dflt acc [] = Inr acc"
| "parse_group dflt acc ((nm, atom_data) # rest) =
     (case parse_atom nm atom_data dflt of
        Inl e \<Rightarrow> Inl e
      | Inr a \<Rightarrow> parse_group dflt (AList.update nm a acc) rest)"

definition load_group ::
  "(string \<times> yaml) list \<Rightarrow> string \<Rightarrow> Curvature \<Rightarrow> error + (string \<times> AtomSpec) list" where
  "load_group data key dflt =
     (case items (dict_get data key (YMap [])) of
        Inl e \<Rightarrow> Inl e
      | Inr its \<Rightarrow> parse_group dflt [] its)"

fun load_specs :: "source \<Rightarrow> error + AtomSpecs" where
  "load_specs Unreadable = Inl OSError"
| "load_specs Malformed = Inl YAMLError"
| "load_specs (Document (YMap data)) =
     (case load_group data ''affine_atoms'' AFFINE of
        Inl e \<Rightarrow> Inl e
      | Inr affine \<Rightarrow>
          (case load_group data ''convex_atoms'' CONVEX of
             Inl e \<Rightarrow> Inl e
           | Inr convex \<Rightarrow>
               (case load_group data ''concave_atoms'' CONCAVE of
                  Inl e \<Rightarrow> Inl e
                | Inr concave \<Rightarrow>
                    Inr \<lparr> affine_atoms = affine, convex_atoms = convex,
                          concave_atoms = concave \<rparr>)))"
| "load_specs (Document _) = Inl AttributeError"

section \<open>Conformance checks (validators/python/validate\_cvxpy.py)\<close>

text \<open>
  A cvxpy expression is seen by the validator only through six introspection methods;
  the record holds what they return.
\<close>

record Expression =
  is_convex :: bool
  is_concave :: bool
  is_affine :: bool
  is_constant :: bool
  is_nonneg :: bool
  is_nonpos :: bool

definition check_curvature :: "Expression \<Rightarrow> Curvature \<Rightarrow> bool \<times> string" where
  "check_curvature expr expected =
     (let actual =
            (if is_constant expr then ''constant''
             else if is_affine expr then ''affine''
             else if is_convex expr \<and> \<not> is_concave expr then ''convex''
             else if is_concave expr \<and> \<not> is_convex expr then ''concave''
             else ''unknown'');
          passed =
            (if expected = CONSTANT then is_constant expr
             else if expected = AFFINE then is_affine expr
             else if expected = CONVEX then is_convex expr
             else if expected = CONCAVE then is_concave expr
             else True)
      in (passed, ''expected '' @ Curvature_value expected @ '', got '' @ actual))"

definition check_sign :: "Expression \<Rightarrow> Sign \<Rightarrow> bool \<times> string" where
  "check_sign expr expected =
     (let actual =
            (if is_nonneg expr \<and> is_nonpos expr then ''zero''
             else if is_nonneg expr then ''nonnegative''
             else if is_nonpos expr then ''nonpositive''
             else ''unknown'');
          passed =
            (if expected = NONNEGATIVE then is_nonneg expr
             else if expected = NONPOSITIVE then is_nonpos expr
             else if expected = ZERO then is_nonneg expr \<and> is_nonpos expr
             else True)
      in (passed, ''expected '' @ Sign_value expected @ '', got '' @ actual))"

text \<open>
  The keys of \<open>ATOM_MAP\<close>, in the order of the dict display, and the set \<open>BINARY_ATOMS\<close>.
  The values of \<open>ATOM_MAP\<close> are cvxpy's callables; what they do is the \<open>Backend\<close> below.
\<close>

definition ATOM_MAP :: "string list" where
  "ATOM_MAP =
     [''sum'', ''reshape'', ''transpose'', ''trace'', ''diag'', ''vstack'', ''hstack'',
      ''norm1'', ''norm2'', ''normInf'', ''abs'', ''pos'', ''neg'', ''maximum'',
      ''sum_squares'', ''quad_form'', ''quad_over_lin'', ''exp'',
      ''log'', ''entropy'', ''sqrt'', ''minimum'']"

definition BINARY_ATOMS :: "string list" where
  "BINARY_ATOMS = [''maximum'', ''minimum'', ''quad_form'', ''quad_over_lin'']"

text \<open>
  A call into cvxpy either returns or raises an exception with a message. The backend is
  what the validator gets from cvxpy:
  \<^item> \<open>construct b a\<close>: the body of the \<open>try\<close> in \<open>create_test_expression\<close> for atom \<open>a\<close>
    (test variables made, the atom's callable applied to them);
  \<^item> \<open>convex_arg b\<close>: building \<open>cp.sum_squares(cp.Variable(5))\<close>;
  \<^item> \<open>compose b a\<close>: the atom's callable applied to that convex argument (with the
    identity matrix as second operand for \<open>quad_form\<close>).
\<close>

datatype 'a outcome = Raised string | Returned 'a

record Backend =
  construct :: "string \<Rightarrow> Expression outcome"
  convex_arg :: "unit outcome"
  compose :: "string \<Rightarrow> Expression outcome"

text \<open>\<open>create_test_expression\<close>: an exception becomes \<open>None\<close> (after a printed warning).\<close>

definition create_test_expression :: "Backend \<Rightarrow> string \<Rightarrow> Expression option" where
  "create_test_expression b aname =
     (case construct b aname of Returned e \<Rightarrow> Some e | Raised msg \<Rightarrow> None)"

text \<open>
  \<open>check_dcp_with_non_affine\<close>. The outer \<open>try\<close> turns an exception into
  \<open>"rejected with: ..."\<close>, the inner one into \<open>"correctly rejected non-affine"\<close>. The
  body of \<open>if expr.is_convex() and not expr.is_affine()\<close> is \<open>pass\<close>, so both of its
  branches fall through to the same \<open>return\<close>.
\<close>

definition check_dcp_with_non_affine :: "Backend \<Rightarrow> string \<Rightarrow> AtomSpec \<Rightarrow> bool \<times> string" where
  "check_dcp_with_non_affine b aname spec =
     (if \<not> requires_affine_arg spec then (True, ''no affine requirement'')
      else
        (case convex_arg b of
           Raised msg \<Rightarrow> (True, ''rejected with: '' @ msg)
         | Returned _ \<Rightarrow>
             if aname = ''quad_form'' then
               (case compose b aname of
                  Raised msg \<Rightarrow> (True, ''rejected with: '' @ msg)
                | Returned expr \<Rightarrow> (True, ''composition check passed''))
             else if aname \<in> set BINARY_ATOMS then (True, ''skipped binary atom'')
             else
               (case compose b aname of
                  Raised msg \<Rightarrow> (True, ''correctly rejected non-affine'')
                | Returned expr \<Rightarrow>
                    if is_convex expr \<and> \<not> is_affine expr
                    then (True, ''composition check passed'')
                    else (True, ''composition check passed''))))"

text \<open>The dataclass \<open>ValidationResult\<close> and \<open>validate_atom\<close>.\<close>

record ValidationResult =
  atom_name :: string
  passed :: bool
  checks :: "(string \<times> bool \<times> string) list"

definition failed_checks :: "ValidationResult \<Rightarrow> (string \<times> bool \<times> string) list" where
  "failed_checks r = filter (\<lambda>(nm, p, msg). \<not> p) (checks r)"

definition validate_atom :: "Backend \<Rightarrow> string \<Rightarrow> AtomSpec \<Rightarrow> ValidationResult" where
  "validate_atom b aname spec =
     (if aname \<notin> set ATOM_MAP then
        \<lparr> atom_name = aname, passed = False,
          checks = [(''exists'', False,
                     ''atom '' @ [CHR 0x27] @ aname @ [CHR 0x27] @ '' not mapped to cvxpy'')] \<rparr>
      else
        (let checks0 = [(''exists'', True, ''atom exists in cvxpy'')] in
         case create_test_expression b aname of
           None \<Rightarrow>
             \<lparr> atom_name = aname, passed = False,
               checks = checks0 @ [(''creates_expr'', False, ''could not create expression'')] \<rparr>
         | Some expr \<Rightarrow>
             (let checks1 = checks0 @ [(''creates_expr'', True, ''expression created'')];
                  checks2 = checks1 @ [(''curvature'', check_curvature expr (curvature spec))];
                  checks3 = checks2 @ [(''sign'', check_sign expr (sign spec))];
                  checks4 = checks3 @
                    [(''dcp_requirement'', check_dcp_with_non_affine b aname spec)];
                  all_passed = list_all (\<lambda>(nm, p, msg). p) checks4
              in \<lparr> atom_name = aname, passed = all_passed, checks = checks4 \<rparr>)))"

text \<open>
  \<open>validate_all\<close> walks \<open>ATOM_MAP\<close> and skips the atoms the specification does not have;
  \<open>main\<close> of the validator exits with the number of results that did not pass (an
  exception of \<open>load_specs\<close> is not caught there).
\<close>

fun validate_names :: "Backend \<Rightarrow> AtomSpecs \<Rightarrow> string list \<Rightarrow> ValidationResult list" where
  "validate_names b specs [] = []"
| "validate_names b specs (aname # rest) =
     (case get specs aname of
        None \<Rightarrow> validate_names b specs rest
      | Some spec \<Rightarrow> validate_atom b aname spec # validate_names b specs rest)"

definition validate_all :: "Backend \<Rightarrow> AtomSpecs \<Rightarrow> ValidationResult list" where
  "validate_all b specs = validate_names b specs ATOM_MAP"

definition failures :: "ValidationResult list \<Rightarrow> ValidationResult list" where
  "failures results = filter (\<lambda>r. \<not> passed r) results"

definition validate_cvxpy_main :: "source \<Rightarrow> Backend \<Rightarrow> error + nat" where
  "validate_cvxpy_main src b =
     (case load_specs src of
        Inl e \<Rightarrow> Inl e
      | Inr specs \<Rightarrow> Inr (length (failures (validate_all b specs))))"

section \<open>Cross-language runner (validators/run\_all.py)\<close>

text \<open>
  Python strings are modelled as lists of characters with code points below 256. The
  string methods the runner uses follow: \<open>s.split(sep)\<close> for a one-character separator
  (it always returns at least one piece), \<open>needle in s\<close>, \<open>s.strip()\<close> and \<open>s.split()\<close>
  (whitespace is what \<open>str.isspace\<close> accepts below 256).
\<close>

fun split_on :: "char \<Rightarrow> string \<Rightarrow> string list" where
  "split_on sep [] = [[]]"
| "split_on sep (c # cs) =
     (if c = sep then [] # split_on sep cs
      else (case split_on sep cs of p # ps \<Rightarrow> (c # p) # ps | [] \<Rightarrow> [[c]]))"

definition starts_with :: "string \<Rightarrow> string \<Rightarrow> bool" where
  "starts_with needle s = (take (length needle) s = needle)"

fun contains :: "string \<Rightarrow> string \<Rightarrow> bool" where
  "contains needle [] = (needle = [])"
| "contains needle (c # cs) = (starts_with needle (c # cs) \<or> contains needle cs)"

definition py_isspace :: "char \<Rightarrow> bool" where
  "py_isspace c = ((of_char c :: nat) \<in> set [9, 10, 11, 12, 13, 28, 29, 30, 31, 32, 133, 160])"

definition strip :: "string \<Rightarrow> string" where
  "strip s = rev (dropWhile py_isspace (rev (dropWhile py_isspace s)))"

fun split_ws :: "string \<Rightarrow> string \<Rightarrow> string list" where
  "split_ws cur [] = (if cur = [] then [] else [cur])"
| "split_ws cur (c # cs) =
     (if py_isspace c then (if cur = [] then split_ws [] cs else cur # split_ws [] cs)
      else split_ws (cur @ [c]) cs)"

definition py_split :: "string \<Rightarrow> string list" where
  "py_split s = split_ws [] s"

text \<open>
  \<open>int(s)\<close> for a string without whitespace: an optional sign, then decimal digits,
  single underscores allowed between digits; \<open>None\<close> stands for the \<open>ValueError\<close>.
  (The interpreter's limit on the number of digits is not modelled.)
\<close>

definition is_digit :: "char \<Rightarrow> bool" where
  "is_digit c = (48 \<le> (of_char c :: nat) \<and> (of_char c :: nat) \<le> 57)"

definition digit_val :: "char \<Rightarrow> nat" where
  "digit_val c = of_char c - 48"

fun parse_digits :: "nat \<Rightarrow> string \<Rightarrow> nat option" where
  "parse_digits acc [] = Some acc"
| "parse_digits acc [c] = (if is_digit c then Some (10 * acc + digit_val c) else None)"
| "parse_digits acc (c # d # ds) =
     (if is_digit c then parse_digits (10 * acc + digit_val c) (d # ds)
      else if c = CHR ''_'' \<and> is_digit d then parse_digits (10 * acc + digit_val d) ds
      else None)"

definition parse_unsigned :: "string \<Rightarrow> nat option" where
  "parse_unsigned s =
     (case s of [] \<Rightarrow> None
      | c # cs \<Rightarrow> if is_digit c then parse_digits (digit_val c) cs else None)"

definition py_int :: "string \<Rightarrow> int option" where
  "py_int s =
     (case s of
        [] \<Rightarrow> None
      | c # cs \<Rightarrow>
          if c = CHR ''-'' then map_option (\<lambda>n. - int n) (parse_unsigned cs)
          else if c = CHR ''+'' then map_option int (parse_unsigned cs)
          else map_option int (parse_unsigned s))"

text \<open>
  \<open>passed, total = map(int, nums.split("/"))\<close>. The \<open>map\<close> is lazy and the unpacking asks
  for a third item before it complains, so the pieces are converted one by one, and the
  first failure is the exception raised. \<open>Inl\<close> carries \<open>str(e)\<close>; the quoting of the
  offending piece is a plain pair of quotes where Python uses \<open>repr\<close>.
\<close>

definition invalid_literal :: "string \<Rightarrow> string" where
  "invalid_literal s = ''invalid literal for int() with base 10: '' @ [CHR 0x27] @ s @ [CHR 0x27]"

definition unpack_two :: "string list \<Rightarrow> string + (int \<times> int)" where
  "unpack_two pieces =
     (case pieces of
        [] \<Rightarrow> Inl ''not enough values to unpack (expected 2, got 0)''
      | p1 # r1 \<Rightarrow>
          (case py_int p1 of
             None \<Rightarrow> Inl (invalid_literal p1)
           | Some a \<Rightarrow>
               (case r1 of
                  [] \<Rightarrow> Inl ''not enough values to unpack (expected 2, got 1)''
                | p2 # r2 \<Rightarrow>
                    (case py_int p2 of
                       None \<Rightarrow> Inl (invalid_literal p2)
                     | Some b \<Rightarrow>
                         (case r2 of
                            [] \<Rightarrow> Inr (a, b)
                          | p3 # r3 \<Rightarrow>
                              (case py_int p3 of
                                 None \<Rightarrow> Inl (invalid_literal p3)
                               | Some c \<Rightarrow> Inl ''too many values to unpack (expected 2)''))))))"

text \<open>
  The loop over the lines of the captured output, the same in the three runners: every
  line holding \<open>"Validation Results:"\<close> whose text after the last colon holds a slash
  overwrites \<open>passed, total\<close>; an exception leaves the loop.
\<close>

fun scan_lines :: "int \<times> int \<Rightarrow> string list \<Rightarrow> string + (int \<times> int)" where
  "scan_lines pt [] = Inr pt"
| "scan_lines pt (line # rest) =
     (if contains ''Validation Results:'' line then
        (let parts = strip (last (split_on CHR '':'' line)) in
         if contains ''/'' parts then
           (case py_split parts of
              [] \<Rightarrow> Inl ''list index out of range''
            | nums # others \<Rightarrow>
                (case unpack_two (split_on CHR ''/'' nums) of
                   Inl e \<Rightarrow> Inl e
                 | Inr pt' \<Rightarrow> scan_lines pt' rest))
         else scan_lines pt rest)
      else scan_lines pt rest)"

definition parse_output :: "string \<Rightarrow> string + (int \<times> int)" where
  "parse_output output = scan_lines (0, 0) (split_on (CHR 0x0A) output)"


text \<open>
  The dataclass \<open>ValidatorResult\<close>; its field \<open>output\<close> is \<open>captured_output\<close> here
  (\<open>output\<close> is a reserved word of Isabelle).
\<close>

record ValidatorResult =
  language :: string
  success :: bool
  passed :: int
  total :: int
  captured_output :: string
  error :: "string option"

definition error_result :: "string \<Rightarrow> string \<Rightarrow> ValidatorResult" where
  "error_result lang msg =
     \<lparr> language = lang, success = False, passed = 0, total = 0, captured_output = [],
       error = Some msg \<rparr>"

definition completed_result :: "string \<Rightarrow> int \<Rightarrow> string \<Rightarrow> string \<Rightarrow> ValidatorResult" where
  "completed_result lang returncode stdout stderr =
     (let out = stdout @ stderr in
      case parse_output out of
        Inl msg \<Rightarrow> error_result lang msg
      | Inr (p, t) \<Rightarrow>
          \<lparr> language = lang, success = (returncode = 0), passed = p, total = t,
            captured_output = out, error = None \<rparr>)"





text \<open>
  \<open>print_summary\<close>: the status column of each row and the flag \<open>all_passed\<close>.
  \<open>if r.error\<close> tests truthiness: \<open>None\<close> and the empty string are false.
\<close>

definition truthy :: "string option \<Rightarrow> bool" where
  "truthy e = (case e of None \<Rightarrow> False | Some s \<Rightarrow> s \<noteq> [])"

definition row_status :: "ValidatorResult \<Rightarrow> string" where
  "row_status r =
     (let status = (if success r then ''PASS'' else ''FAIL'')
      in if truthy (error r) then ''ERROR'' else status)"





section \<open>What cvxpy reports\<close>

text \<open>
  Modelled from the spec: cvxpy's \<open>Expression.is_affine\<close> is library code, not under
  \<open>src/\<close>. The specification (4.2) has affine expressions convex and concave by
  definition; cvxpy computes \<open>is_affine\<close> as \<open>is_constant or (is_convex and is_concave)\<close>.
  The flags of every expression that \<open>check_curvature\<close> receives satisfy this.
\<close>

definition cvxpy_flags :: "Expression \<Rightarrow> bool" where
  "cvxpy_flags e = (is_affine e = (is_constant e \<or> (is_convex e \<and> is_concave e)))"

section \<open>Concrete inputs\<close>

text \<open>
  Introspection flags: the flags cvxpy reports for an affine expression such as
  \<open>sum(x)\<close>, and the flags of a convex, non-affine, nonnegative expression such as
  \<open>norm1(x)\<close>.
\<close>

definition affine_expr :: Expression where
  "affine_expr = \<lparr> is_convex = True, is_concave = True, is_affine = True,
     is_constant = False, is_nonneg = False, is_nonpos = False \<rparr>"

definition convex_expr :: Expression where
  "convex_expr = \<lparr> is_convex = True, is_concave = False, is_affine = False,
     is_constant = False, is_nonneg = True, is_nonpos = False \<rparr>"

text \<open>
  A specification document with the single affine atom \<open>sum\<close>, all fields left to their
  defaults, what it loads to, a backend whose test expressions are affine, and a backend
  on which every construction raises.
\<close>

definition sum_document :: yaml where
  "sum_document = YMap [(''affine_atoms'', YMap [(''sum'', YMap [])])]"

definition sum_spec :: AtomSpec where
  "sum_spec = \<lparr> name = ''sum'', description = YStr [], curvature = AFFINE,
     sign = Sign.UNKNOWN, arity = YStr ''unary'', dcp_requires = YNull,
     monotonicity = None, parameters = YList [] \<rparr>"

definition sum_specs :: AtomSpecs where
  "sum_specs = \<lparr> affine_atoms = [(''sum'', sum_spec)], convex_atoms = [],
     concave_atoms = [] \<rparr>"

definition affine_backend :: Backend where
  "affine_backend = \<lparr> construct = (\<lambda>a. Returned affine_expr),
     convex_arg = Returned (), compose = (\<lambda>a. Returned convex_expr) \<rparr>"

definition raising_backend :: Backend where
  "raising_backend = \<lparr> construct = (\<lambda>a. Raised ''cannot build''),
     convex_arg = Returned (), compose = (\<lambda>a. Returned convex_expr) \<rparr>"

text \<open>The one-atom document again, its atom declaring a sign token the loader does not know.\<close>

definition bogus_sign_document :: yaml where
  "bogus_sign_document =
     YMap [(''affine_atoms'', YMap [(''sum'', YMap [(''sign'', YStr ''bogus'')])])]"

section \<open>Lookup under another partition order\<close>







section \<open>Runs within the process contract\<close>




section \<open>Properties of the conformance checks\<close>

text \<open>
  C1. \<open>check_curvature\<close> decides by the flag that the expected curvature names: unknown
  always passes, constant passes exactly when \<open>is_constant\<close>, affine exactly when
  \<open>is_affine\<close>, convex exactly when \<open>is_convex\<close>, concave exactly when \<open>is_concave\<close>,
  for every combination of the flags.
\<close>

theorem check_curvature_decision_rule:
  "fst (check_curvature e Curvature.UNKNOWN) = True
   \<and> fst (check_curvature e CONSTANT) = is_constant e
   \<and> fst (check_curvature e AFFINE) = is_affine e
   \<and> fst (check_curvature e CONVEX) = is_convex e
   \<and> fst (check_curvature e CONCAVE) = is_concave e"
  by (simp add: check_curvature_def Let_def)

text \<open>
  C2. \<open>check_sign\<close> decides by the sign flags: zero passes exactly when both flags hold
  (so it fails on nonneg only and passes on both), nonnegative exactly when \<open>is_nonneg\<close>,
  nonpositive exactly when \<open>is_nonpos\<close>, and unknown always.
\<close>

theorem check_sign_decision_rule:
  "fst (check_sign e ZERO) = (is_nonneg e \<and> is_nonpos e)
   \<and> fst (check_sign e NONNEGATIVE) = is_nonneg e
   \<and> fst (check_sign e NONPOSITIVE) = is_nonpos e
   \<and> fst (check_sign e Sign.UNKNOWN) = True
   \<and> fst (check_sign (e\<lparr>is_nonneg := True, is_nonpos := False\<rparr>) ZERO) = False
   \<and> fst (check_sign (e\<lparr>is_nonneg := True, is_nonpos := True\<rparr>) ZERO) = True"
  by (simp add: check_sign_def Let_def)


text \<open>
  C3. Flags classified affine (\<open>is_affine\<close> and not \<open>is_constant\<close>, so that the
  diagnostic reads "got affine") pass the convex check and the concave check, for every
  flag tuple that cvxpy can report.
\<close>

theorem affine_passes_convex_and_concave:
  assumes "cvxpy_flags e" and "is_affine e" and "\<not> is_constant e"
  shows "snd (check_curvature e CONVEX) = ''expected convex, got affine''
    \<and> snd (check_curvature e CONCAVE) = ''expected concave, got affine''
    \<and> fst (check_curvature e CONVEX)
    \<and> fst (check_curvature e CONCAVE)"
  using assms by (simp add: check_curvature_def cvxpy_flags_def Let_def)

theorem affine_passes_convex_and_concave_witness:
  "cvxpy_flags affine_expr \<and> is_affine affine_expr \<and> \<not> is_constant affine_expr
   \<and> snd (check_curvature affine_expr CONVEX) = ''expected convex, got affine''
   \<and> snd (check_curvature affine_expr CONCAVE) = ''expected concave, got affine''
   \<and> fst (check_curvature affine_expr CONVEX) \<and> fst (check_curvature affine_expr CONCAVE)"
proof -
  have w: "cvxpy_flags affine_expr" by (simp add: cvxpy_flags_def affine_expr_def)
  have a: "is_affine affine_expr" and c: "\<not> is_constant affine_expr"
    by (simp_all add: affine_expr_def)
  from affine_passes_convex_and_concave [OF w a c] w a c show ?thesis by simp
qed

section \<open>The composition check\<close>

text \<open>
  \<open>check_dcp_with_non_affine\<close> passes on every path. Without the affine-argument
  requirement it says "no affine requirement"; with it, a raised exception is a
  rejection, and an accepted composition passes whatever curvature the composed
  expression reports, since the test on \<open>is_convex\<close> and \<open>is_affine\<close> guards an empty
  branch.
\<close>

lemma check_dcp_with_non_affine_passes:
  "fst (check_dcp_with_non_affine b a spec) = True"
  by (simp add: check_dcp_with_non_affine_def split: outcome.splits)

lemma check_dcp_with_non_affine_messages:
  "\<not> requires_affine_arg spec \<Longrightarrow>
     check_dcp_with_non_affine b a spec = (True, ''no affine requirement'')"
  "requires_affine_arg spec \<Longrightarrow> convex_arg b = Returned u \<Longrightarrow> a \<noteq> ''quad_form'' \<Longrightarrow>
   a \<notin> set BINARY_ATOMS \<Longrightarrow> compose b a = Raised msg \<Longrightarrow>
     check_dcp_with_non_affine b a spec = (True, ''correctly rejected non-affine'')"
  "requires_affine_arg spec \<Longrightarrow> convex_arg b = Returned u \<Longrightarrow> a \<noteq> ''quad_form'' \<Longrightarrow>
   a \<notin> set BINARY_ATOMS \<Longrightarrow> compose b a = Returned expr \<Longrightarrow>
     check_dcp_with_non_affine b a spec = (True, ''composition check passed'')"
  by (simp_all add: check_dcp_with_non_affine_def)

section \<open>Validating one atom\<close>

text \<open>
  C9. \<open>validate_atom\<close> records its checks in the order exists, creates\_expr, curvature,
  sign, dcp\_requirement. An atom that is not mapped gets the single failed check
  exists; a mapped atom whose expression cannot be built gets exists and a failed
  creates\_expr and nothing more; otherwise all five are recorded, the last three each
  with the outcome of its own check function, whatever the others gave. The aggregate
  \<open>passed\<close> is the conjunction of the recorded outcomes.
\<close>

theorem validate_atom_check_order:
  "map fst (checks (validate_atom b a spec))
     = (if a \<notin> set ATOM_MAP then [''exists'']
        else if create_test_expression b a = None then [''exists'', ''creates_expr'']
        else [''exists'', ''creates_expr'', ''curvature'', ''sign'', ''dcp_requirement''])
   \<and> map (fst \<circ> snd) (checks (validate_atom b a spec))
     = (if a \<notin> set ATOM_MAP then [False]
        else case create_test_expression b a of
          None \<Rightarrow> [True, False]
        | Some expr \<Rightarrow> [True, True, fst (check_curvature expr (curvature spec)),
            fst (check_sign expr (sign spec)), fst (check_dcp_with_non_affine b a spec)])
   \<and> ValidationResult.passed (validate_atom b a spec)
     = list_all (\<lambda>(nm, p, msg). p) (checks (validate_atom b a spec))"
  by (simp add: validate_atom_def Let_def split: option.splits)

section \<open>Construction failures\<close>

lemma load_sum_document: "load_specs (Document sum_document) = Inr sum_specs"
  by (simp add: sum_document_def sum_specs_def sum_spec_def load_group_def dict_get_def Let_def)

lemma get_sum_specs: "get sum_specs ''sum'' = Some sum_spec"
  by (simp add: get_def sum_specs_def)

lemma validate_names_member:
  "aname \<in> set names \<Longrightarrow> get specs aname = Some spec \<Longrightarrow>
   validate_atom b aname spec \<in> set (validate_names b specs names)"
  by (induction names) (auto split: option.splits)

lemma validate_atom_construct_raised:
  "aname \<in> set ATOM_MAP \<Longrightarrow> construct b aname = Raised msg \<Longrightarrow>
   validate_atom b aname spec =
     \<lparr> atom_name = aname, passed = False,
       checks = [(''exists'', True, ''atom exists in cvxpy''),
                 (''creates_expr'', False, ''could not create expression'')] \<rparr>"
  by (simp add: validate_atom_def create_test_expression_def)

text \<open>
  C5 as stated fails: a construction failure does count. With the one-atom
  specification, the validator exits with 0 on a backend that builds the expression and
  with 1 on a backend whose construction raises; nothing else differs between the two.
\<close>

theorem construction_failure_counterexample:
  "validate_cvxpy_main (Document sum_document) affine_backend = Inr 0
   \<and> validate_cvxpy_main (Document sum_document) raising_backend = Inr 1"
  by (simp add: validate_cvxpy_main_def load_sum_document sum_specs_def sum_spec_def
      validate_all_def ATOM_MAP_def get_def validate_atom_def create_test_expression_def
      failures_def affine_backend_def raising_backend_def check_curvature_def check_sign_def
      check_dcp_with_non_affine_def requires_affine_arg_def affine_expr_def Let_def)

text \<open>
  C5, amended. A construction failure is caught, not propagated: for a mapped atom whose
  construction raises, \<open>validate_atom\<close> returns a result with the checks exists (passed)
  and creates\_expr (failed, "could not create expression") and \<open>passed = False\<close>. When
  the atom is in the specification this result is among the failures of
  \<open>validate_all\<close>, so the validator's exit count is at least 1.
\<close>

theorem construction_failure_counts_as_failure:
  assumes "aname \<in> set ATOM_MAP" and "construct b aname = Raised msg"
  shows "validate_atom b aname spec =
     \<lparr> atom_name = aname, passed = False,
       checks = [(''exists'', True, ''atom exists in cvxpy''),
                 (''creates_expr'', False, ''could not create expression'')] \<rparr>
   \<and> (get specs aname = Some spec \<longrightarrow>
        validate_atom b aname spec \<in> set (failures (validate_all b specs)))
   \<and> (load_specs src = Inr specs \<and> get specs aname = Some spec \<longrightarrow>
        (\<exists>n. validate_cvxpy_main src b = Inr n \<and> 1 \<le> n))"
proof -
  let ?r = "validate_atom b aname spec"
  have r: "?r = \<lparr> atom_name = aname, passed = False,
       checks = [(''exists'', True, ''atom exists in cvxpy''),
                 (''creates_expr'', False, ''could not create expression'')] \<rparr>"
    using assms by (rule validate_atom_construct_raised)
  have np: "\<not> ValidationResult.passed ?r" by (simp add: r)
  have mem: "?r \<in> set (failures (validate_all b specs))" if "get specs aname = Some spec"
    using validate_names_member [OF assms(1) that, of b] np
    by (simp add: failures_def validate_all_def)
  have cnt: "\<exists>n. validate_cvxpy_main src b = Inr n \<and> 1 \<le> n"
    if l: "load_specs src = Inr specs" and g: "get specs aname = Some spec"
  proof -
    have "failures (validate_all b specs) \<noteq> []" using mem [OF g] by auto
    then have "1 \<le> length (failures (validate_all b specs))"
      by (cases "failures (validate_all b specs)") simp_all
    then show ?thesis by (simp add: validate_cvxpy_main_def l)
  qed
  from r mem cnt show ?thesis by blast
qed

theorem construction_failure_counts_as_failure_witness:
  "''sum'' \<in> set ATOM_MAP
   \<and> construct raising_backend ''sum'' = Raised ''cannot build''
   \<and> load_specs (Document sum_document) = Inr sum_specs
   \<and> get sum_specs ''sum'' = Some sum_spec
   \<and> validate_atom raising_backend ''sum'' sum_spec =
       \<lparr> atom_name = ''sum'', passed = False,
         checks = [(''exists'', True, ''atom exists in cvxpy''),
                   (''creates_expr'', False, ''could not create expression'')] \<rparr>
   \<and> validate_atom raising_backend ''sum'' sum_spec
         \<in> set (failures (validate_all raising_backend sum_specs))
   \<and> (\<exists>n. validate_cvxpy_main (Document sum_document) raising_backend = Inr n \<and> 1 \<le> n)"
proof -
  have a: "''sum'' \<in> set ATOM_MAP" by (simp add: ATOM_MAP_def)
  have c: "construct raising_backend ''sum'' = Raised ''cannot build''"
    by (simp add: raising_backend_def)
  note t = construction_failure_counts_as_failure
             [OF a c, of sum_spec sum_specs "Document sum_document"]
  from t a c load_sum_document get_sum_specs show ?thesis by blast
qed

section \<open>The loader\<close>

lemma dict_get_update_other:
  "k' \<noteq> k \<Longrightarrow> dict_get (AList.update k v d) k' dflt = dict_get d k' dflt"
  by (simp add: dict_get_def update_conv')

lemma parse_atom_YMap_Inr:
  "parse_atom nm (YMap data) dflt = Inr a \<Longrightarrow>
   a = \<lparr> name = nm,
         description = dict_get data ''description'' (YStr []),
         curvature = curvature a,
         sign = parse_sign (dict_get data ''sign'' (YStr ''unknown'')),
         arity = dict_get data ''arity'' (YStr ''unary''),
         dcp_requires = dict_get data ''dcp_requires'' YNull,
         monotonicity = parse_monotonicity (dict_get data ''monotonicity'' YNull),
         parameters = dict_get data ''parameters'' (YList []) \<rparr>"
  by (auto simp add: Let_def simp del: Curvature_of.simps split: sum.splits)


lemma parse_atom_isl_sign:
  "isl (parse_atom nm (YMap (AList.update ''sign'' v data)) dflt)
     = isl (parse_atom nm (YMap data) dflt)"
  by (simp add: Let_def dict_get_update_other del: Curvature_of.simps split: sum.splits)

lemma parse_sign_sentinel:
  assumes "raw \<in> set [''unknown'', ''from_value'', ''from_attributes'', ''preserve'']"
  shows "parse_sign (YStr raw) = Sign.UNKNOWN"
proof -
  have "raw = ''unknown'' \<or> raw = ''from_value'' \<or> raw = ''from_attributes''
        \<or> raw = ''preserve''"
    using assms by simp
  then show ?thesis by (elim disjE) simp_all
qed

lemma parse_sign_other:
  assumes "raw \<notin> set [''nonnegative'', ''nonpositive'', ''zero'']"
  shows "parse_sign (YStr raw) = Sign.UNKNOWN"
proof -
  have "raw \<noteq> ''nonnegative''" and "raw \<noteq> ''nonpositive''" using assms by simp_all
  then show ?thesis by simp
qed

lemma parse_sign_non_string:
  assumes "\<forall>s. y \<noteq> YStr s"
  shows "parse_sign y = Sign.UNKNOWN"
  using assms by (cases y) simp_all

lemma parse_atom_sum: "parse_atom ''sum'' (YMap []) AFFINE = Inr sum_spec"
  by (simp add: sum_spec_def dict_get_def Let_def)

text \<open>
  C7 as stated fails: an unrecognized sign token does not make loading fail. The
  document whose atom declares the sign \<open>bogus\<close> loads, and to the same catalog as the
  document that declares no sign: the token has become \<open>unknown\<close>.
\<close>

theorem unrecognized_sign_counterexample:
  "load_specs (Document bogus_sign_document) = Inr sum_specs"
  by (simp add: bogus_sign_document_def sum_specs_def sum_spec_def load_group_def
      dict_get_def Let_def)

text \<open>
  C7, amended. The loader resolves the sign field without ever failing on it:
  \<open>nonnegative\<close> and \<open>nonpositive\<close> map to the corresponding values; \<open>unknown\<close>, the
  sentinels \<open>from_value\<close>, \<open>from_attributes\<close> and \<open>preserve\<close>, every other string
  except \<open>zero\<close>, and every entry that is not a string resolve to unknown. The sign of
  a parsed atom is this resolution of its \<open>sign\<close> entry, and whether \<open>_parse_atom\<close>
  fails does not depend on that entry. (Nothing is said here about the token \<open>zero\<close>.)
\<close>

theorem parse_sign_resolution:
  "parse_sign (YStr ''nonnegative'') = NONNEGATIVE
   \<and> parse_sign (YStr ''nonpositive'') = NONPOSITIVE
   \<and> (raw \<in> set [''unknown'', ''from_value'', ''from_attributes'', ''preserve'']
        \<longrightarrow> parse_sign (YStr raw) = Sign.UNKNOWN)
   \<and> (raw \<notin> set [''nonnegative'', ''nonpositive'', ''zero'']
        \<longrightarrow> parse_sign (YStr raw) = Sign.UNKNOWN)
   \<and> ((\<forall>s. y \<noteq> YStr s) \<longrightarrow> parse_sign y = Sign.UNKNOWN)
   \<and> (parse_atom nm (YMap data) dflt = Inr a
        \<longrightarrow> sign a = parse_sign (dict_get data ''sign'' (YStr ''unknown'')))
   \<and> isl (parse_atom nm (YMap (AList.update ''sign'' v data)) dflt)
        = isl (parse_atom nm (YMap data) dflt)"
proof (intro conjI impI)
  show "parse_sign (YStr ''nonnegative'') = NONNEGATIVE" by simp
  show "parse_sign (YStr ''nonpositive'') = NONPOSITIVE" by simp
  show "parse_sign (YStr raw) = Sign.UNKNOWN"
    if "raw \<in> set [''unknown'', ''from_value'', ''from_attributes'', ''preserve'']"
    using that by (rule parse_sign_sentinel)
  show "parse_sign (YStr raw) = Sign.UNKNOWN"
    if "raw \<notin> set [''nonnegative'', ''nonpositive'', ''zero'']"
    using that by (rule parse_sign_other)
  show "parse_sign y = Sign.UNKNOWN" if "\<forall>s. y \<noteq> YStr s"
    using that by (rule parse_sign_non_string)
  show "sign a = parse_sign (dict_get data ''sign'' (YStr ''unknown''))"
    if "parse_atom nm (YMap data) dflt = Inr a"
    using parse_atom_YMap_Inr [OF that] by (cases a) simp
  show "isl (parse_atom nm (YMap (AList.update ''sign'' v data)) dflt)
        = isl (parse_atom nm (YMap data) dflt)"
    by (rule parse_atom_isl_sign)
qed

theorem parse_sign_resolution_witness:
  "parse_sign (YStr ''from_value'') = Sign.UNKNOWN
   \<and> parse_sign (YStr ''bogus'') = Sign.UNKNOWN
   \<and> parse_sign YNull = Sign.UNKNOWN
   \<and> parse_atom ''sum'' (YMap []) AFFINE = Inr sum_spec
   \<and> sign sum_spec = parse_sign (dict_get [] ''sign'' (YStr ''unknown''))"
proof -
  have m1: "''from_value'' \<in> set [''unknown'', ''from_value'', ''from_attributes'', ''preserve'']"
    by simp
  have m2: "''bogus'' \<notin> set [''nonnegative'', ''nonpositive'', ''zero'']" by simp
  have m3: "\<forall>s. YNull \<noteq> YStr s" by simp
  from parse_sign_resolution [of "''from_value''" YNull "''sum''" "[]" AFFINE sum_spec]
       parse_sign_resolution [of "''bogus''" YNull "''sum''" "[]" AFFINE sum_spec]
       parse_atom_sum m1 m2 m3
  show ?thesis by blast
qed

lemma Curvature_of_value: "Curvature_of (YStr (Curvature_value c)) = Inr c"
  by (cases c) simp_all

lemma Curvature_value_not_preserve: "Curvature_value c \<noteq> ''preserve''"
  by (cases c) simp_all

lemma parse_atom_curvature_absent:
  assumes "map_of data ''curvature'' = None"
  shows "\<exists>a. parse_atom nm (YMap data) dflt = Inr a \<and> curvature a = dflt"
  using assms
  by (simp add: Let_def dict_get_def Curvature_of_value Curvature_value_not_preserve
      del: Curvature_of.simps)

lemma parse_atom_curvature_mapping:
  assumes "map_of data ''curvature'' = Some (YMap m)"
  shows "\<exists>a. parse_atom nm (YMap data) dflt = Inr a \<and> curvature a = dflt"
  using assms
  by (simp add: Let_def dict_get_def del: Curvature_of.simps)

lemma dict_get_absent: "map_of d k = None \<Longrightarrow> dict_get d k dflt = dflt"
  by (simp add: dict_get_def)

lemma load_group_absent:
  "map_of doc key = None \<Longrightarrow> load_group doc key dflt = Inr []"
  by (simp add: load_group_def dict_get_def)

lemma load_group_cons_other:
  "k \<noteq> key \<Longrightarrow> load_group ((k, v) # doc) key dflt = load_group doc key dflt"
  by (simp add: load_group_def dict_get_def)

lemma load_group_cons_empty:
  "load_group ((key, YMap []) # doc) key dflt = Inr []"
  by (simp add: load_group_def dict_get_def)


lemma parse_atom_fields:
  assumes "parse_atom nm (YMap data) dflt = Inr a"
  shows "name a = nm
    \<and> description a = dict_get data ''description'' (YStr [])
    \<and> sign a = parse_sign (dict_get data ''sign'' (YStr ''unknown''))
    \<and> arity a = dict_get data ''arity'' (YStr ''unary'')
    \<and> dcp_requires a = dict_get data ''dcp_requires'' YNull
    \<and> monotonicity a = parse_monotonicity (dict_get data ''monotonicity'' YNull)
    \<and> parameters a = dict_get data ''parameters'' (YList [])"
  using parse_atom_YMap_Inr [OF assms] by (cases a) simp

lemma load_specs_empty:
  "load_specs (Document (YMap [])) =
     Inr \<lparr> affine_atoms = [], convex_atoms = [], concave_atoms = [] \<rparr>"
  by (simp add: load_group_def dict_get_def)

lemma load_specs_absent_group:
  assumes "key \<in> set [''affine_atoms'', ''convex_atoms'', ''concave_atoms'']"
    and "map_of doc key = None"
  shows "load_specs (Document (YMap doc)) = load_specs (Document (YMap ((key, YMap []) # doc)))"
proof -
  have same: "load_group ((key, YMap []) # doc) k c = load_group doc k c"
    if "k \<in> set [''affine_atoms'', ''convex_atoms'', ''concave_atoms'']" for k c
  proof (cases "k = key")
    case True
    then show ?thesis using assms(2) by (simp add: load_group_cons_empty load_group_absent)
  next
    case False
    then show ?thesis by (simp add: load_group_cons_other)
  qed
  have a: "load_group ((key, YMap []) # doc) ''affine_atoms'' AFFINE
             = load_group doc ''affine_atoms'' AFFINE"
    by (rule same) simp
  have b: "load_group ((key, YMap []) # doc) ''convex_atoms'' CONVEX
             = load_group doc ''convex_atoms'' CONVEX"
    by (rule same) simp
  have c: "load_group ((key, YMap []) # doc) ''concave_atoms'' CONCAVE
             = load_group doc ''concave_atoms'' CONCAVE"
    by (rule same) simp
  show ?thesis unfolding load_specs.simps a b c ..
qed

text \<open>
  C10. The loader fills what a document leaves out. An atom entry without a
  \<open>curvature\<close> field, or with a mapping there, parses without failing and gets its
  partition's default curvature; an absent description becomes the empty string, an
  absent sign unknown, an absent arity unary, an absent composition requirement
  \<open>None\<close> (so neither requirement holds), an absent monotonicity \<open>None\<close>, absent
  parameters the empty list. A document without one of the three partition groups loads
  exactly as the same document with that group present and empty, the partition being
  empty; the empty document loads to the empty catalog.
\<close>

theorem loader_defaults:
  "(map_of data ''curvature'' = None \<or> (\<exists>m. map_of data ''curvature'' = Some (YMap m))
      \<longrightarrow> (\<exists>a. parse_atom nm (YMap data) dflt = Inr a \<and> curvature a = dflt))
   \<and> (parse_atom nm (YMap data) dflt = Inr a \<longrightarrow>
        (map_of data ''description'' = None \<longrightarrow> description a = YStr [])
      \<and> (map_of data ''sign'' = None \<longrightarrow> sign a = Sign.UNKNOWN)
      \<and> (map_of data ''arity'' = None \<longrightarrow> arity a = YStr ''unary'')
      \<and> (map_of data ''dcp_requires'' = None \<longrightarrow>
            dcp_requires a = YNull \<and> \<not> requires_affine_arg a \<and> \<not> requires_constant_arg a)
      \<and> (map_of data ''monotonicity'' = None \<longrightarrow> monotonicity a = None)
      \<and> (map_of data ''parameters'' = None \<longrightarrow> parameters a = YList []))
   \<and> (key \<in> set [''affine_atoms'', ''convex_atoms'', ''concave_atoms'']
        \<and> map_of doc key = None \<longrightarrow>
          load_group doc key dflt = Inr []
          \<and> load_specs (Document (YMap doc))
              = load_specs (Document (YMap ((key, YMap []) # doc))))
   \<and> load_specs (Document (YMap [])) =
       Inr \<lparr> affine_atoms = [], convex_atoms = [], concave_atoms = [] \<rparr>"
proof (intro conjI impI)
  show "\<exists>a. parse_atom nm (YMap data) dflt = Inr a \<and> curvature a = dflt"
    if "map_of data ''curvature'' = None \<or> (\<exists>m. map_of data ''curvature'' = Some (YMap m))"
    using that parse_atom_curvature_absent parse_atom_curvature_mapping by blast
next
  assume p: "parse_atom nm (YMap data) dflt = Inr a"
  note f = parse_atom_fields [OF p]
  show "description a = YStr []" if "map_of data ''description'' = None"
    using f that by (simp add: dict_get_absent)
  show "sign a = Sign.UNKNOWN" if "map_of data ''sign'' = None"
    using f that by (simp add: dict_get_absent)
  show "arity a = YStr ''unary''" if "map_of data ''arity'' = None"
    using f that by (simp add: dict_get_absent)
  show "dcp_requires a = YNull" if "map_of data ''dcp_requires'' = None"
    using f that by (simp add: dict_get_absent)
  show "\<not> requires_affine_arg a" if "map_of data ''dcp_requires'' = None"
    using f that by (simp add: dict_get_absent requires_affine_arg_def)
  show "\<not> requires_constant_arg a" if "map_of data ''dcp_requires'' = None"
    using f that by (simp add: dict_get_absent requires_constant_arg_def)
  show "monotonicity a = None" if "map_of data ''monotonicity'' = None"
    using f that by (simp add: dict_get_absent)
  show "parameters a = YList []" if "map_of data ''parameters'' = None"
    using f that by (simp add: dict_get_absent)
next
  assume k: "key \<in> set [''affine_atoms'', ''convex_atoms'', ''concave_atoms'']
        \<and> map_of doc key = None"
  show "load_group doc key dflt = Inr []" using k by (simp add: load_group_absent)
  show "load_specs (Document (YMap doc)) = load_specs (Document (YMap ((key, YMap []) # doc)))"
    using k load_specs_absent_group by blast
next
  show "load_specs (Document (YMap [])) =
       Inr \<lparr> affine_atoms = [], convex_atoms = [], concave_atoms = [] \<rparr>"
    by (rule load_specs_empty)
qed

theorem loader_defaults_witness:
  "parse_atom ''sum'' (YMap []) AFFINE = Inr sum_spec
   \<and> curvature sum_spec = AFFINE
   \<and> description sum_spec = YStr []
   \<and> sign sum_spec = Sign.UNKNOWN
   \<and> arity sum_spec = YStr ''unary''
   \<and> dcp_requires sum_spec = YNull
   \<and> monotonicity sum_spec = None
   \<and> parameters sum_spec = YList []
   \<and> load_group [(''affine_atoms'', YMap [(''sum'', YMap [])])] ''convex_atoms'' CONVEX = Inr []
   \<and> load_specs (Document sum_document)
       = load_specs (Document (YMap [(''convex_atoms'', YMap []),
                                      (''affine_atoms'', YMap [(''sum'', YMap [])])]))"
proof -
  have k: "''convex_atoms'' \<in> set [''affine_atoms'', ''convex_atoms'', ''concave_atoms'']
        \<and> map_of [(''affine_atoms'', YMap [(''sum'', YMap [])])] ''convex_atoms'' = None"
    by simp
  note t = loader_defaults [of "[]" "''sum''" AFFINE sum_spec "''convex_atoms''"
             "[(''affine_atoms'', YMap [(''sum'', YMap [])])]"]
  note u = loader_defaults [of "[]" "''sum''" CONVEX sum_spec "''convex_atoms''"
             "[(''affine_atoms'', YMap [(''sum'', YMap [])])]"]
  have c: "curvature sum_spec = AFFINE" by (simp add: sum_spec_def)
  have fields: "description sum_spec = YStr [] \<and> sign sum_spec = Sign.UNKNOWN
      \<and> arity sum_spec = YStr ''unary'' \<and> dcp_requires sum_spec = YNull
      \<and> monotonicity sum_spec = None \<and> parameters sum_spec = YList []"
    using t [THEN conjunct2, THEN conjunct1, THEN mp, OF parse_atom_sum] by simp
  have groups: "load_group [(''affine_atoms'', YMap [(''sum'', YMap [])])] ''convex_atoms'' CONVEX
        = Inr []
      \<and> load_specs (Document (YMap [(''affine_atoms'', YMap [(''sum'', YMap [])])]))
        = load_specs (Document (YMap [(''convex_atoms'', YMap []),
                                       (''affine_atoms'', YMap [(''sum'', YMap [])])]))"
    by (rule u [THEN conjunct2, THEN conjunct2, THEN conjunct1, THEN mp, OF k])
  show ?thesis
    unfolding sum_document_def
    using parse_atom_sum c fields groups by (intro conjI) (elim conjE, assumption)+
qed

section \<open>Lookup by name\<close>









section \<open>The runner's classification\<close>











lemma status_literals:
  "''PASS'' \<noteq> ''FAIL''" "''PASS'' \<noteq> ''ERROR''" "''FAIL'' \<noteq> ''ERROR''"
  by simp_all






















text \<open>
  Outside the contract: a line that holds \<open>"Validation Results:"\<close> and a slash but no
  two integers raises inside the \<open>try\<close>, and the blanket handler turns the run into
  an error result, whatever the exit code was.
\<close>

lemma unparsable_summary_is_error:
  "row_status (completed_result lang 0 ''Validation Results: 3 / 5 atoms passed'' []) = ''ERROR''"
  by code_simp




end
